theory Spec2Isabelle
  imports Complex_Main
begin

section \<open>Data model\<close>

text \<open>
  Modelled from the spec: the types \<^verbatim>\<open>VideoScene\<close> and \<^verbatim>\<open>VideoProject\<close>, which the
  component \<^verbatim>\<open>App\<close> of \<^verbatim>\<open>src/App.tsx\<close> imports from \<^verbatim>\<open>store/videoStore\<close>. The fields
  are those of the spec's data model, under the names the component reads and writes.
  A scene duration is a number of seconds and may have a fraction: it is a rational, and
  products of durations are exact (the rounding of floating-point arithmetic is not
  modelled). Clock readings and timer delays are whole milliseconds. Identifiers and URLs
  are strings. A \<^verbatim>\<open>null\<close> reference is \<open>None\<close>.
\<close>

datatype ProjectStatus = draft | ready | rendering | complete

datatype VoiceType = female | male | neutral

datatype Step = Step_script | Step_style | Step_scenes | Step_audio | Step_render | Step_preview

record VideoScene =
  scene_id :: string
  "text" :: string
  imageUrl :: "string option"
  duration :: rat
  voiceAudio :: "string option"

record VideoProject =
  project_id :: string
  title :: string
  script :: "string option"
  style :: string
  scenes :: "VideoScene list"
  voiceType :: VoiceType
  musicTrack :: "string option"
  videoUrl :: "string option"
  status :: ProjectStatus

text \<open>The outcome of an awaited promise: it rejects (the \<^verbatim>\<open>catch\<close> branch runs) or resolves.\<close>

datatype 'a settled = Rejected | Resolved 'a

text \<open>
  A suspended call of \<^verbatim>\<open>playScene\<close>: either it awaits \<^verbatim>\<open>speakText\<close> for the scene at
  an index (with the clock reading at which the narration began), or its \<^verbatim>\<open>setTimeout\<close>
  callback \<^verbatim>\<open>playScene(index + 1)\<close> is due at a clock reading. Both hold the project that
  the enclosing \<^verbatim>\<open>handlePlayPreview\<close> closed over.
\<close>

datatype task =
    AwaitSpeech VideoProject nat int
  | AwaitTimeout VideoProject nat int

text \<open>
  The state the handlers read and write: the store (\<open>currentProject\<close>, \<open>isGenerating\<close>),
  the component's \<^verbatim>\<open>useState\<close> cells (\<open>currentStep\<close>, \<open>topic\<close>, \<open>isPlaying\<close>,
  \<open>currentSceneIndex\<close>), and the part of the browser the preview acts on: the utterance
  the speech synthesiser has in flight, the suspended \<^verbatim>\<open>playScene\<close> calls and the clock.
  \<open>shown\<close> lists, with the clock reading, each index that \<^verbatim>\<open>playScene\<close> made current.
  Progress reporting (\<^verbatim>\<open>setProgress\<close>) writes two cells that no handler reads and is
  left out.
\<close>

record app =
  currentProject :: "VideoProject option"
  isGenerating :: bool
  currentStep :: Step
  topic :: string
  isPlaying :: bool
  currentSceneIndex :: nat
  utterance :: "(string \<times> VoiceType) option"
  suspended :: "task list"
  now :: int
  shown :: "(int \<times> nat) list"

section \<open>The store\<close>

text \<open>
  Modelled from the spec: the store functions \<^verbatim>\<open>updateProject\<close>, \<^verbatim>\<open>addScene\<close> and
  \<^verbatim>\<open>updateScene\<close> of \<^verbatim>\<open>store/videoStore\<close>. The store is pure data with create, read,
  update and delete; scenes keep their creation order; the duration bounds are not
  enforced inside the store. An update names the project by its id and merges the given
  fields into it.
\<close>

definition updateProject :: "string \<Rightarrow> (VideoProject \<Rightarrow> VideoProject) \<Rightarrow> app \<Rightarrow> app" where
  "updateProject pid updates s =
     (case currentProject s of
        None \<Rightarrow> s
      | Some p \<Rightarrow> if project_id p = pid then s\<lparr>currentProject := Some (updates p)\<rparr> else s)"

definition addScene :: "string \<Rightarrow> VideoScene \<Rightarrow> app \<Rightarrow> app" where
  "addScene pid scene s = updateProject pid (\<lambda>p. p\<lparr>scenes := scenes p @ [scene]\<rparr>) s"

definition updateScene :: "string \<Rightarrow> string \<Rightarrow> (VideoScene \<Rightarrow> VideoScene) \<Rightarrow> app \<Rightarrow> app" where
  "updateScene pid sid updates s =
     updateProject pid
       (\<lambda>p. p\<lparr>scenes := map (\<lambda>sc. if scene_id sc = sid then updates sc else sc) (scenes p)\<rparr>) s"

section \<open>Scene generation\<close>

text \<open>
  \<^verbatim>\<open>handleGenerateScenes\<close>. The collaborators are parameters: \<open>parseScriptToScenes\<close> gives
  the parsed segments as pairs of text and duration, \<open>generateImage\<close> settles for a prompt
  and a style, and \<open>randomUUID i\<close> is the identifier drawn in iteration \<open>i\<close>. The loop runs
  over the parsed segments in order; both branches of the \<^verbatim>\<open>try\<close> end in \<^verbatim>\<open>addScene\<close>.
  The result is the state after the closing timer callback has run.
\<close>

fun generateLoop ::
  "(string \<Rightarrow> string \<Rightarrow> string settled) \<Rightarrow> (nat \<Rightarrow> string) \<Rightarrow> VideoProject \<Rightarrow> string \<Rightarrow>
   nat \<Rightarrow> (string \<times> rat) list \<Rightarrow> app \<Rightarrow> app" where
  "generateLoop generateImage randomUUID p tpc i [] s = s"
| "generateLoop generateImage randomUUID p tpc i (parsed # rest) s =
     (case generateImage (fst parsed @ '', '' @ tpc) (style p) of
        Resolved url \<Rightarrow>
          generateLoop generateImage randomUUID p tpc (Suc i) rest
            (addScene (project_id p)
               \<lparr>scene_id = randomUUID i, text = fst parsed, imageUrl = Some url,
                duration = snd parsed, voiceAudio = None\<rparr> s)
      | Rejected \<Rightarrow>
          generateLoop generateImage randomUUID p tpc (Suc i) rest
            (addScene (project_id p)
               \<lparr>scene_id = randomUUID i, text = fst parsed, imageUrl = None,
                duration = snd parsed, voiceAudio = None\<rparr> s))"

definition handleGenerateScenes ::
  "(string \<Rightarrow> (string \<times> rat) list) \<Rightarrow> (string \<Rightarrow> string \<Rightarrow> string settled) \<Rightarrow> (nat \<Rightarrow> string) \<Rightarrow>
   app \<Rightarrow> app" where
  "handleGenerateScenes parseScriptToScenes generateImage randomUUID s =
     (case currentProject s of
        None \<Rightarrow> s
      | Some p \<Rightarrow>
          (case script p of
             None \<Rightarrow> s
           | Some scr \<Rightarrow>
               if scr = [] then s
               else
                 let s1 = s\<lparr>isGenerating := True\<rparr>;
                     parsedScenes = parseScriptToScenes scr;
                     s2 = updateProject (project_id p) (\<lambda>q. q\<lparr>scenes := []\<rparr>) s1;
                     s3 = generateLoop generateImage randomUUID p (topic s) 0 parsedScenes s2
                 in s3\<lparr>currentStep := Step_scenes, isGenerating := False\<rparr>))"

section \<open>The scene editor\<close>

text \<open>
  The \<^verbatim>\<open>onChange\<close> handler of the duration field, given \<^verbatim>\<open>Number(e.target.value)\<close>, and
  the \<^verbatim>\<open>onClick\<close> handler of the Add Scene button, given the identifier it draws.
\<close>

definition duration_onChange :: "string \<Rightarrow> rat \<Rightarrow> app \<Rightarrow> app" where
  "duration_onChange sid v s =
     (case currentProject s of
        None \<Rightarrow> s
      | Some p \<Rightarrow> updateScene (project_id p) sid (\<lambda>sc. sc\<lparr>duration := v\<rparr>) s)"

definition addScene_onClick :: "string \<Rightarrow> app \<Rightarrow> app" where
  "addScene_onClick uuid s =
     (case currentProject s of
        None \<Rightarrow> s
      | Some p \<Rightarrow>
          addScene (project_id p)
            \<lparr>scene_id = uuid, text = ''New scene text...'', imageUrl = None, duration = 5,
             voiceAudio = None\<rparr> s)"

section \<open>Rendering and download\<close>

text \<open>
  \<^verbatim>\<open>handleRenderVideo\<close>, with the outcome of \<^verbatim>\<open>renderVideo\<close> on the scenes, style and
  music track as a parameter. The result lists the states in the order they arise: after
  the synchronous part that ends at the \<^verbatim>\<open>await\<close>, after the \<^verbatim>\<open>try\<close> or \<^verbatim>\<open>catch\<close>
  branch and, on success, after the timer callback. A call that returns at the guard
  passes through the state it found only.
\<close>

definition handleRenderVideo ::
  "(VideoScene list \<Rightarrow> string \<Rightarrow> string option \<Rightarrow> string settled) \<Rightarrow> app \<Rightarrow> app list" where
  "handleRenderVideo renderVideo s =
     (case currentProject s of
        None \<Rightarrow> [s]
      | Some p \<Rightarrow>
          if scenes p = [] then [s]
          else
            let s1 = updateProject (project_id p) (\<lambda>q. q\<lparr>status := rendering\<rparr>)
                       (s\<lparr>isGenerating := True\<rparr>)
            in (case renderVideo (scenes p) (style p) (musicTrack p) of
                  Resolved url \<Rightarrow>
                    let s2 = updateProject (project_id p)
                               (\<lambda>q. q\<lparr>videoUrl := Some url, status := complete\<rparr>) s1
                    in [s1, s2, s2\<lparr>currentStep := Step_preview, isGenerating := False\<rparr>]
                | Rejected \<Rightarrow>
                    [s1, (updateProject (project_id p) (\<lambda>q. q\<lparr>status := ready\<rparr>) s1)
                           \<lparr>isGenerating := False\<rparr>]))"

text \<open>
  \<^verbatim>\<open>handleDownload\<close>: the anchor it clicks, as the pair of \<^verbatim>\<open>href\<close> and \<^verbatim>\<open>download\<close>, or
  \<open>None\<close> when it returns at the guard.
\<close>

definition handleDownload :: "app \<Rightarrow> (string \<times> string) option" where
  "handleDownload s =
     (case currentProject s of
        None \<Rightarrow> None
      | Some p \<Rightarrow>
          (case videoUrl p of
             None \<Rightarrow> None
           | Some url \<Rightarrow>
               if url = [] then None
               else Some (url, (if title p = [] then ''video'' else title p) @ ''.webm'')))"

section \<open>The renderer\<close>








section \<open>Preview\<close>

text \<open>
  Modelled from the spec: \<^verbatim>\<open>speakText\<close> of \<^verbatim>\<open>services/videoRenderer\<close> and the speech
  synthesiser. \<^verbatim>\<open>speakText\<close> speaks one utterance in the requested voice and signals its
  completion; a new utterance replaces the one in flight; \<^verbatim>\<open>speechSynthesis.cancel()\<close>
  silences the utterance in flight. The cell \<open>utterance\<close> holds the utterance in flight.
  When a narration completes, and after how long, is decided outside the component: it
  is an event.
\<close>

text \<open>
  \<^verbatim>\<open>playScene\<close> up to its \<^verbatim>\<open>await\<close>: past the last scene it clears the playing flag and
  resets the index; otherwise it makes the scene current, starts the narration and
  suspends.
\<close>

definition playScene :: "VideoProject \<Rightarrow> nat \<Rightarrow> app \<Rightarrow> app" where
  "playScene p index s =
     (if index \<ge> length (scenes p) then s\<lparr>isPlaying := False, currentSceneIndex := 0\<rparr>
      else
        let scene = scenes p ! index
        in s\<lparr>currentSceneIndex := index,
             shown := shown s @ [(now s, index)],
             utterance := Some (text scene, voiceType p),
             suspended := suspended s @ [AwaitSpeech p index (now s)]\<rparr>)"

text \<open>
  \<^verbatim>\<open>previewIntervalRef\<close> is created as \<^verbatim>\<open>useRef(null)\<close> and never assigned. No interval
  exists, so \<^verbatim>\<open>clearInterval\<close> has nothing to clear.
\<close>

definition previewIntervalRef :: "nat option" where
  "previewIntervalRef = None"

definition clearInterval :: "nat \<Rightarrow> app \<Rightarrow> app" where
  "clearInterval handle s = s"

text \<open>
  \<^verbatim>\<open>handlePlayPreview\<close>, the click handler of the preview button.
  \<^verbatim>\<open>speechSynthesis.cancel()\<close> empties the synthesiser.
\<close>

definition handlePlayPreview :: "app \<Rightarrow> app" where
  "handlePlayPreview s =
     (case currentProject s of
        None \<Rightarrow> s
      | Some p \<Rightarrow>
          if scenes p = [] then s
          else if isPlaying s then
            (let s1 = s\<lparr>isPlaying := False, utterance := None\<rparr>
             in case previewIntervalRef of None \<Rightarrow> s1 | Some handle \<Rightarrow> clearInterval handle s1)
          else playScene p 0 (s\<lparr>isPlaying := True, currentSceneIndex := 0\<rparr>))"

text \<open>
  The exception that escapes \<^verbatim>\<open>handlePlayPreview\<close>, given whether the window has a speech
  synthesiser (\<^verbatim>\<open>'speechSynthesis' in window\<close>, which the component tests before it loads
  the voices). The one statement of the handler that can throw is
  \<^verbatim>\<open>speechSynthesis.cancel()\<close>, which names a global that does not exist without a
  synthesiser; \<^verbatim>\<open>setIsPlaying(false)\<close> has run by then. The start branch calls the
  asynchronous \<^verbatim>\<open>playScene\<close>, which throws nothing to its caller.
\<close>

datatype error = ReferenceError

definition handlePlayPreview_throws :: "bool \<Rightarrow> app \<Rightarrow> error option" where
  "handlePlayPreview_throws hasSpeechSynthesis s =
     (case currentProject s of
        None \<Rightarrow> None
      | Some p \<Rightarrow>
          if scenes p = [] then None
          else if isPlaying s then (if hasSpeechSynthesis then None else Some ReferenceError)
          else None)"

text \<open>
  The delay \<^verbatim>\<open>setTimeout\<close> makes of the number it is given: the browser reads it as a
  32-bit signed integer (the fraction is dropped and the value wraps around modulo
  \<open>2 ^ 32\<close>), and a negative delay is due at once.
\<close>

definition setTimeout_delay :: "rat \<Rightarrow> int" where
  "setTimeout_delay ms =
     (let n = (if ms < 0 then - \<lfloor>- ms\<rfloor> else \<lfloor>ms\<rfloor>);
          w = n mod 2 ^ 32;
          d = (if w \<ge> 2 ^ 31 then w - 2 ^ 32 else w)
      in max 0 d)"

text \<open>
  The rest of \<^verbatim>\<open>playScene\<close>. When the narration awaited by the \<open>k\<close>-th suspended call has
  taken \<open>elapsed\<close> milliseconds, the call resumes and calls \<^verbatim>\<open>setTimeout\<close> with
  \<^verbatim>\<open>scene.duration * 1000\<close>. When the timer of the \<open>k\<close>-th suspended call is due, its
  callback runs \<^verbatim>\<open>playScene(index + 1)\<close>. A suspended call that never gets its event
  stays suspended.
\<close>

definition lookup :: "nat \<Rightarrow> 'a list \<Rightarrow> 'a option" where
  "lookup k xs = (if k < length xs then Some (xs ! k) else None)"

definition speechEnds :: "nat \<Rightarrow> int \<Rightarrow> app \<Rightarrow> app" where
  "speechEnds k elapsed s =
     (case lookup k (suspended s) of
        Some (AwaitSpeech p index began) \<Rightarrow>
          let scene = scenes p ! index;
              t = max (now s) (began + elapsed)
          in s\<lparr>now := t,
               utterance := (if utterance s = Some (text scene, voiceType p) then None
                             else utterance s),
               suspended := (suspended s)
                 [k := AwaitTimeout p (index + 1) (t + setTimeout_delay (duration scene * 1000))]\<rparr>
      | _ \<Rightarrow> s)"

definition timerFires :: "nat \<Rightarrow> app \<Rightarrow> app" where
  "timerFires k s =
     (case lookup k (suspended s) of
        Some (AwaitTimeout p index due) \<Rightarrow>
          playScene p index
            (s\<lparr>now := max (now s) due,
               suspended := take k (suspended s) @ drop (Suc k) (suspended s)\<rparr>)
      | _ \<Rightarrow> s)"

text \<open>What can happen to the preview: a click on the button, or one of the two resumptions.\<close>

datatype event = Click | SpeechEnds nat int | TimerFires nat

fun step :: "app \<Rightarrow> event \<Rightarrow> app" where
  "step s Click = handlePlayPreview s"
| "step s (SpeechEnds k elapsed) = speechEnds k elapsed s"
| "step s (TimerFires k) = timerFires k s"

definition run :: "app \<Rightarrow> event list \<Rightarrow> app" where
  "run s evs = foldl step s evs"

text \<open>
  An undisturbed traversal: one click, then for each scene its narration ends after the
  given time and its timer fires.
\<close>

definition traversal :: "int list \<Rightarrow> event list" where
  "traversal elapsed = Click # concat (map (\<lambda>e. [SpeechEnds 0 e, TimerFires 0]) elapsed)"


section \<open>A sample project\<close>

definition scene_of :: "string \<Rightarrow> string \<Rightarrow> rat \<Rightarrow> VideoScene" where
  "scene_of sid txt d =
     \<lparr>scene_id = sid, text = txt, imageUrl = None, duration = d, voiceAudio = None\<rparr>"

definition demoProject :: VideoProject where
  "demoProject =
     \<lparr>project_id = ''p1'', title = ''Demo'', script = Some ''One. Two. Three.'',
      style = ''cinematic'',
      scenes = [scene_of ''a'' ''One'' 5, scene_of ''b'' ''Two'' 5, scene_of ''c'' ''Three'' 5],
      voiceType = female, musicTrack = None, videoUrl = None, status = draft\<rparr>"

definition initial :: "VideoProject \<Rightarrow> app" where
  "initial p =
     \<lparr>currentProject = Some p, isGenerating = False, currentStep = Step_script, topic = [],
      isPlaying = False, currentSceneIndex = 0, utterance = None, suspended = [], now = 0,
      shown = []\<rparr>"

text \<open>Readings of the current project, and sample collaborators.\<close>

definition projectScenes :: "app \<Rightarrow> VideoScene list" where
  "projectScenes s = (case currentProject s of None \<Rightarrow> [] | Some p \<Rightarrow> scenes p)"

definition projectStatus :: "app \<Rightarrow> ProjectStatus option" where
  "projectStatus s = map_option status (currentProject s)"

definition artifact :: "app \<Rightarrow> string option" where
  "artifact s = (case currentProject s of None \<Rightarrow> None | Some p \<Rightarrow> videoUrl p)"

definition renderResolves :: "VideoScene list \<Rightarrow> string \<Rightarrow> string option \<Rightarrow> string settled" where
  "renderResolves scs sty music = Resolved ''blob:video''"

definition renderRejects :: "VideoScene list \<Rightarrow> string \<Rightarrow> string option \<Rightarrow> string settled" where
  "renderRejects scs sty music = Rejected"

definition imageRejects :: "string \<Rightarrow> string \<Rightarrow> string settled" where
  "imageRejects prompt sty = Rejected"


definition parseDemo :: "string \<Rightarrow> (string \<times> rat) list" where
  "parseDemo scr = [(''One'', 4), (''Two'', 6)]"

text \<open>
  A preview that is stopped while the second scene waits for its timer and started again
  at once: the events up to the moment the new traversal shows its second scene, and the
  events that follow until the timer of the earlier traversal has fired for the last time.
\<close>

definition restarted :: "event list" where
  "restarted =
     [Click, SpeechEnds 0 1000, TimerFires 0, SpeechEnds 0 2000, Click,
      Click, SpeechEnds 1 1000, TimerFires 0, TimerFires 0]"

definition restarted_on :: "event list" where
  "restarted_on = restarted @ [SpeechEnds 0 1000, SpeechEnds 1 1000, TimerFires 0]"


definition uuidDemo :: "nat \<Rightarrow> string" where
  "uuidDemo i = replicate (Suc i) (CHR ''u'')"

text \<open>
  The time each scene of an undisturbed traversal is held: the time its narration took
  and then the delay of its timer.
\<close>

definition holds :: "VideoProject \<Rightarrow> int list \<Rightarrow> int list" where
  "holds p elapsed =
     map (\<lambda>(sc, e). e + setTimeout_delay (duration sc * 1000)) (zip (scenes p) elapsed)"

section \<open>Facts about the sample project\<close>

lemma demo_fields [simp]:
  "scenes demoProject = [scene_of ''a'' ''One'' 5, scene_of ''b'' ''Two'' 5, scene_of ''c'' ''Three'' 5]"
  "videoUrl demoProject = None" "status demoProject = draft" "project_id demoProject = ''p1''"
  "title demoProject = ''Demo''" "voiceType demoProject = female"
  "script demoProject = Some ''One. Two. Three.''" "style demoProject = ''cinematic''"
  by (simp_all add: demoProject_def)

lemma initial_fields [simp]:
  "currentProject (initial p) = Some p" "isPlaying (initial p) = False"
  "currentSceneIndex (initial p) = 0" "suspended (initial p) = []" "now (initial p) = 0"
  "shown (initial p) = []" "utterance (initial p) = None" "isGenerating (initial p) = False"
  "topic (initial p) = []"
  by (simp_all add: initial_def)

section \<open>Rendering and download: properties\<close>

text \<open>
  C5. A render call on a project whose scene list is empty returns at the guard: the only
  state it passes through is the one it found, so the generating flag, the status and
  the artifact reference are as before, whatever \<^verbatim>\<open>renderVideo\<close> would have answered.
\<close>

theorem render_without_scenes_rejected:
  "currentProject s = Some p \<Longrightarrow> scenes p = [] \<Longrightarrow> handleRenderVideo renderVideo s = [s]"
  by (simp add: handleRenderVideo_def)

theorem render_without_scenes_rejected_witness:
  "handleRenderVideo renderResolves (initial (demoProject\<lparr>scenes := []\<rparr>))
     = [initial (demoProject\<lparr>scenes := []\<rparr>)]"
  using render_without_scenes_rejected
    [of "initial (demoProject\<lparr>scenes := []\<rparr>)" "demoProject\<lparr>scenes := []\<rparr>"
        renderResolves]
  by (simp add: initial_def)

text \<open>
  C9. For a project with a rendered artifact, the download is offered under the project
  title followed by \<^verbatim>\<open>.webm\<close>, and under \<^verbatim>\<open>video.webm\<close> when the title is empty.
\<close>

theorem download_filename:
  "currentProject s = Some p \<Longrightarrow> videoUrl p = Some url \<Longrightarrow> url \<noteq> [] \<Longrightarrow>
   handleDownload s = Some (url, (if title p = [] then ''video'' else title p) @ ''.webm'')"
  by (simp add: handleDownload_def)

theorem download_filename_witness:
  "handleDownload (initial (demoProject\<lparr>videoUrl := Some ''blob:video''\<rparr>))
     = Some (''blob:video'', ''Demo.webm'')
   \<and> handleDownload (initial (demoProject\<lparr>title := [], videoUrl := Some ''blob:video''\<rparr>))
     = Some (''blob:video'', ''video.webm'')"
  using download_filename
    [of "initial (demoProject\<lparr>videoUrl := Some ''blob:video''\<rparr>)"
        "demoProject\<lparr>videoUrl := Some ''blob:video''\<rparr>" "''blob:video''"]
    download_filename
    [of "initial (demoProject\<lparr>title := [], videoUrl := Some ''blob:video''\<rparr>)"
        "demoProject\<lparr>title := [], videoUrl := Some ''blob:video''\<rparr>" "''blob:video''"]
  by (simp add: initial_def demoProject_def)

text \<open>
  C3. Amended. A render call on a project with at least one scene sets the status to
  \<open>rendering\<close> before the work begins, whatever the status was (the handler does not look
  at it); on success the status becomes \<open>complete\<close> and the artifact reference is stored;
  on failure the status becomes \<open>ready\<close> and the artifact reference stays as it was.
\<close>

theorem render_status_transitions:
  "currentProject s = Some p \<Longrightarrow> scenes p \<noteq> [] \<Longrightarrow>
   map projectStatus (handleRenderVideo renderVideo s) =
     (case renderVideo (scenes p) (style p) (musicTrack p) of
        Resolved url \<Rightarrow> [Some rendering, Some complete, Some complete]
      | Rejected \<Rightarrow> [Some rendering, Some ready])
   \<and> map artifact (handleRenderVideo renderVideo s) =
     (case renderVideo (scenes p) (style p) (musicTrack p) of
        Resolved url \<Rightarrow> [videoUrl p, Some url, Some url]
      | Rejected \<Rightarrow> [videoUrl p, videoUrl p])"
  by (simp add: handleRenderVideo_def updateProject_def projectStatus_def artifact_def Let_def
      split: settled.split)

theorem render_status_transitions_witness:
  "map projectStatus (handleRenderVideo renderResolves (initial demoProject))
     = [Some rendering, Some complete, Some complete]
   \<and> map artifact (handleRenderVideo renderResolves (initial demoProject))
     = [None, Some ''blob:video'', Some ''blob:video'']
   \<and> map projectStatus (handleRenderVideo renderRejects (initial demoProject))
     = [Some rendering, Some ready]
   \<and> map artifact (handleRenderVideo renderRejects (initial demoProject)) = [None, None]"
  using render_status_transitions [of "initial demoProject" demoProject renderResolves]
    render_status_transitions [of "initial demoProject" demoProject renderRejects]
  by (simp add: renderResolves_def renderRejects_def)

text \<open>
  C3 as stated fails: a project whose last render succeeded has status \<open>complete\<close>, and a
  further render call takes it from \<open>complete\<close> to \<open>rendering\<close>.
\<close>

theorem render_from_complete:
  "projectStatus (initial (demoProject\<lparr>status := complete\<rparr>)) = Some complete
   \<and> map projectStatus (handleRenderVideo renderResolves (initial (demoProject\<lparr>status := complete\<rparr>)))
       = [Some rendering, Some complete, Some complete]"
  by (simp add: handleRenderVideo_def updateProject_def projectStatus_def renderResolves_def)

section \<open>The scene editor: properties\<close>

text \<open>
  C8. The duration field stores the number it is given: entering 100, or clearing the
  field (which reads as 0), leaves a duration outside the range from 2 to 15. The Add
  Scene button adds a scene of 5 seconds.
\<close>

theorem duration_not_clamped:
  "map duration (projectScenes (duration_onChange ''b'' 100 (initial demoProject))) = [5, 100, 5]
   \<and> map duration (projectScenes (duration_onChange ''b'' 0 (initial demoProject))) = [5, 0, 5]
   \<and> map duration (projectScenes (addScene_onClick ''d'' (initial demoProject))) = [5, 5, 5, 5]"
  by (simp add: duration_onChange_def addScene_onClick_def updateScene_def addScene_def
      updateProject_def projectScenes_def scene_of_def)

section \<open>Scene generation: properties\<close>

lemma generateLoop_project:
  "currentProject s = Some q \<Longrightarrow> project_id q = project_id p \<Longrightarrow>
   currentProject (generateLoop gi uuid p tpc i parsed s) =
     Some (q\<lparr>scenes := scenes q @
       map (\<lambda>(k, ps). \<lparr>scene_id = uuid k, text = fst ps,
                        imageUrl = (case gi (fst ps @ '', '' @ tpc) (style p) of
                                      Resolved url \<Rightarrow> Some url | Rejected \<Rightarrow> None),
                        duration = snd ps, voiceAudio = None\<rparr>)
           (zip [i..<i + length parsed] parsed)\<rparr>)"
proof (induction parsed arbitrary: s q i)
  case Nil
  then show ?case by simp
next
  case (Cons ps rest)
  have upt: "[i..<Suc (i + length rest)] = i # [Suc i..<Suc (i + length rest)]"
    by (rule upt_conv_Cons) simp
  show ?case
  proof (cases "gi (fst ps @ '', '' @ tpc) (style p)")
    case Rejected
    let ?sc = "\<lparr>scene_id = uuid i, text = fst ps, imageUrl = None, duration = snd ps, voiceAudio = None\<rparr>"
    have cur: "currentProject (addScene (project_id p) ?sc s) = Some (q\<lparr>scenes := scenes q @ [?sc]\<rparr>)"
      using Cons.prems by (simp add: addScene_def updateProject_def)
    show ?thesis
      using Cons.IH [OF cur, of "Suc i"] Cons.prems(2) Rejected
      by (simp add: upt del: upt_Suc)
  next
    case (Resolved url)
    let ?sc = "\<lparr>scene_id = uuid i, text = fst ps, imageUrl = Some url, duration = snd ps, voiceAudio = None\<rparr>"
    have cur: "currentProject (addScene (project_id p) ?sc s) = Some (q\<lparr>scenes := scenes q @ [?sc]\<rparr>)"
      using Cons.prems by (simp add: addScene_def updateProject_def)
    show ?thesis
      using Cons.IH [OF cur, of "Suc i"] Cons.prems(2) Resolved
      by (simp add: upt del: upt_Suc)
  qed
qed

lemma generated_scenes:
  assumes "currentProject s = Some p" "script p = Some scr" "scr \<noteq> []"
  shows "projectScenes (handleGenerateScenes parse gi uuid s) =
     map (\<lambda>(k, ps). \<lparr>scene_id = uuid k, text = fst ps,
                      imageUrl = (case gi (fst ps @ '', '' @ topic s) (style p) of
                                    Resolved url \<Rightarrow> Some url | Rejected \<Rightarrow> None),
                      duration = snd ps, voiceAudio = None\<rparr>)
         (zip [0..<length (parse scr)] (parse scr))"
proof -
  let ?s2 = "updateProject (project_id p) (\<lambda>q. q\<lparr>scenes := []\<rparr>) (s\<lparr>isGenerating := True\<rparr>)"
  have cur: "currentProject ?s2 = Some (p\<lparr>scenes := []\<rparr>)"
    using assms(1) by (simp add: updateProject_def)
  have "project_id (p\<lparr>scenes := []\<rparr>) = project_id p" by simp
  from generateLoop_project [OF cur this, of gi uuid "topic s" 0 "parse scr"]
  show ?thesis
    using assms by (simp add: handleGenerateScenes_def projectScenes_def Let_def)
qed








text \<open>
  C10. Scene generation leaves the project with exactly one scene for each parsed
  segment, in the order of parsing, with the segment's text and duration, whatever
  scenes the project had before and whichever images could not be generated.
\<close>

theorem generation_replaces_scenes:
  assumes "currentProject s = Some p" "script p = Some scr" "scr \<noteq> []"
  shows "length (projectScenes (handleGenerateScenes parse gi uuid s)) = length (parse scr)
    \<and> map text (projectScenes (handleGenerateScenes parse gi uuid s)) = map fst (parse scr)
    \<and> map duration (projectScenes (handleGenerateScenes parse gi uuid s)) = map snd (parse scr)
    \<and> map scene_id (projectScenes (handleGenerateScenes parse gi uuid s))
        = map uuid [0..<length (parse scr)]"
proof -
  note gs = generated_scenes [OF assms, of parse gi uuid]
  have "map text (projectScenes (handleGenerateScenes parse gi uuid s)) = map fst (parse scr)"
    unfolding gs by (rule nth_equalityI) simp_all
  moreover have "map duration (projectScenes (handleGenerateScenes parse gi uuid s)) = map snd (parse scr)"
    unfolding gs by (rule nth_equalityI) simp_all
  moreover have "map scene_id (projectScenes (handleGenerateScenes parse gi uuid s)) = map uuid [0..<length (parse scr)]"
    unfolding gs by (rule nth_equalityI) simp_all
  moreover have "length (projectScenes (handleGenerateScenes parse gi uuid s)) = length (parse scr)"
    unfolding gs by simp
  ultimately show ?thesis by blast
qed

theorem generation_replaces_scenes_witness:
  "length (scenes demoProject) = 3
   \<and> length (projectScenes (handleGenerateScenes parseDemo imageRejects uuidDemo (initial demoProject))) = 2
   \<and> map text (projectScenes (handleGenerateScenes parseDemo imageRejects uuidDemo (initial demoProject)))
       = [''One'', ''Two'']
   \<and> map duration (projectScenes (handleGenerateScenes parseDemo imageRejects uuidDemo (initial demoProject)))
       = [4, 6]"
  using generation_replaces_scenes
    [of "initial demoProject" demoProject "''One. Two. Three.''" parseDemo imageRejects uuidDemo]
  by (simp add: parseDemo_def)

section \<open>Preview: properties\<close>

lemma setTimeout_delay_nonneg: "0 \<le> setTimeout_delay ms"
  by (simp add: setTimeout_delay_def Let_def)

lemma setTimeout_delay_of_int:
  assumes "0 \<le> k" "k < 2 ^ 31"
  shows "setTimeout_delay (of_int k) = k"
proof -
  have "k mod 2 ^ 32 = k" using assms by simp
  then show ?thesis using assms by (simp add: setTimeout_delay_def Let_def)
qed

lemma setTimeout_delay_5000: "setTimeout_delay 5000 = 5000"
  using setTimeout_delay_of_int [of 5000] by simp

text \<open>
  One round of an undisturbed traversal: the narration of the scene at index \<open>i\<close> ends
  and then its timer fires.
\<close>

lemma round_fields:
  assumes "suspended s = [AwaitSpeech p i (now s)]" "0 \<le> e"
  shows "now (timerFires 0 (speechEnds 0 e s))
           = now s + e + setTimeout_delay (duration (scenes p ! i) * 1000)"
    and "currentProject (timerFires 0 (speechEnds 0 e s)) = currentProject s"
    and "Suc i < length (scenes p) \<Longrightarrow>
           isPlaying (timerFires 0 (speechEnds 0 e s)) = isPlaying s
         \<and> currentSceneIndex (timerFires 0 (speechEnds 0 e s)) = Suc i
         \<and> suspended (timerFires 0 (speechEnds 0 e s))
             = [AwaitSpeech p (Suc i) (now (timerFires 0 (speechEnds 0 e s)))]
         \<and> shown (timerFires 0 (speechEnds 0 e s))
             = shown s @ [(now (timerFires 0 (speechEnds 0 e s)), Suc i)]"
    and "length (scenes p) \<le> Suc i \<Longrightarrow>
           \<not> isPlaying (timerFires 0 (speechEnds 0 e s))
         \<and> currentSceneIndex (timerFires 0 (speechEnds 0 e s)) = 0
         \<and> suspended (timerFires 0 (speechEnds 0 e s)) = []
         \<and> shown (timerFires 0 (speechEnds 0 e s)) = shown s"
  using assms setTimeout_delay_nonneg [of "duration (scenes p ! i) * 1000"]
  by (simp_all add: speechEnds_def timerFires_def lookup_def playScene_def Let_def max_def)

lemma start_fields:
  assumes "currentProject s = Some p" "scenes p \<noteq> []" "\<not> isPlaying s" "suspended s = []"
  shows "isPlaying (handlePlayPreview s)" "currentSceneIndex (handlePlayPreview s) = 0"
    "suspended (handlePlayPreview s) = [AwaitSpeech p 0 (now s)]"
    "shown (handlePlayPreview s) = shown s @ [(now s, 0)]"
    "now (handlePlayPreview s) = now s" "currentProject (handlePlayPreview s) = Some p"
  using assms by (simp_all add: handlePlayPreview_def playScene_def Let_def)

lemma run_snoc2: "run s (evs @ [a, b]) = step (step (run s evs) a) b"
  by (simp add: run_def)

lemma traversal_take_Suc:
  "j < length es \<Longrightarrow>
   traversal (take (Suc j) es) = traversal (take j es) @ [SpeechEnds 0 (es ! j), TimerFires 0]"
  by (simp add: traversal_def take_Suc_conv_app_nth)

lemma run_traversal_Suc:
  "j < length es \<Longrightarrow>
   run s (traversal (take (Suc j) es)) = timerFires 0 (speechEnds 0 (es ! j) (run s (traversal (take j es))))"
  by (simp add: traversal_take_Suc run_snoc2)

lemma holds_nth:
  "j < length (scenes p) \<Longrightarrow> length es = length (scenes p) \<Longrightarrow>
   holds p es ! j = es ! j + setTimeout_delay (duration (scenes p ! j) * 1000)"
  by (simp add: holds_def)

lemma length_holds: "length es = length (scenes p) \<Longrightarrow> length (holds p es) = length (scenes p)"
  by (simp add: holds_def)

lemma sum_take_Suc:
  "j < length (xs :: int list) \<Longrightarrow> sum_list (take (Suc j) xs) = sum_list (take j xs) + xs ! j"
  by (simp add: take_Suc_conv_app_nth)

lemma traversal_mid:
  assumes "currentProject s = Some p" "scenes p \<noteq> []" "\<not> isPlaying s" "suspended s = []"
    "shown s = []" "length es = length (scenes p)" "\<forall>e\<in>set es. 0 \<le> e"
  shows "j < length (scenes p) \<Longrightarrow>
      isPlaying (run s (traversal (take j es)))
    \<and> currentSceneIndex (run s (traversal (take j es))) = j
    \<and> currentProject (run s (traversal (take j es))) = Some p
    \<and> now (run s (traversal (take j es))) = now s + sum_list (take j (holds p es))
    \<and> suspended (run s (traversal (take j es)))
        = [AwaitSpeech p j (now (run s (traversal (take j es))))]
    \<and> shown (run s (traversal (take j es)))
        = map (\<lambda>k. (now s + sum_list (take k (holds p es)), k)) [0..<Suc j]"
proof (induction j)
  case 0
  show ?case
    using start_fields [OF assms(1-4)] assms(5)
    by (simp add: traversal_def run_def)
next
  case (Suc j)
  let ?m = "run s (traversal (take j es))"
  let ?e = "es ! j"
  from Suc have j: "j < length (scenes p)" and Sj: "Suc j < length (scenes p)" by simp_all
  note IH = Suc.IH [OF j]
  have e: "0 \<le> ?e" using assms(6,7) j by simp
  have susp: "suspended ?m = [AwaitSpeech p j (now ?m)]" using IH by simp
  have step: "run s (traversal (take (Suc j) es)) = timerFires 0 (speechEnds 0 ?e ?m)"
    using j assms(6) by (simp add: run_traversal_Suc)
  have nw: "now (timerFires 0 (speechEnds 0 ?e ?m)) = now s + sum_list (take (Suc j) (holds p es))"
    using round_fields(1) [OF susp e] IH j assms(6)
    by (simp add: sum_take_Suc length_holds holds_nth)
  show ?case
    unfolding step
    using round_fields(2) [OF susp e] round_fields(3) [OF susp e Sj] IH nw
    by simp
qed

lemma traversal_end:
  assumes "currentProject s = Some p" "scenes p \<noteq> []" "\<not> isPlaying s" "suspended s = []"
    "shown s = []" "length es = length (scenes p)" "\<forall>e\<in>set es. 0 \<le> e"
  shows "\<not> isPlaying (run s (traversal es))"
    and "currentSceneIndex (run s (traversal es)) = 0"
    and "currentProject (run s (traversal es)) = Some p"
    and "suspended (run s (traversal es)) = []"
    and "now (run s (traversal es)) = now s + sum_list (holds p es)"
    and "shown (run s (traversal es))
        = map (\<lambda>k. (now s + sum_list (take k (holds p es)), k)) [0..<length (scenes p)]"
proof -
  obtain j where n: "length (scenes p) = Suc j"
    using assms(2) by (cases "scenes p") simp_all
  let ?m = "run s (traversal (take j es))"
  let ?e = "es ! j"
  have j: "j < length (scenes p)" using n by simp
  note M = traversal_mid [OF assms j]
  have e: "0 \<le> ?e" using assms(6,7) j by simp
  have susp: "suspended ?m = [AwaitSpeech p j (now ?m)]" using M by simp
  have "take (Suc j) es = es" using assms(6) n by simp
  then have step: "run s (traversal es) = timerFires 0 (speechEnds 0 ?e ?m)"
    using run_traversal_Suc [of j es s] j assms(6) by simp
  have last: "length (scenes p) \<le> Suc j" using n by simp
  have full: "take (Suc j) (holds p es) = holds p es"
    using n assms(6) by (simp add: length_holds)
  have nw: "now (timerFires 0 (speechEnds 0 ?e ?m)) = now s + sum_list (holds p es)"
    using round_fields(1) [OF susp e] M j assms(6) sum_take_Suc [of j "holds p es"] full
    by (simp add: length_holds holds_nth)
  show "\<not> isPlaying (run s (traversal es))" "currentSceneIndex (run s (traversal es)) = 0"
    "suspended (run s (traversal es)) = []"
    unfolding step using round_fields(4) [OF susp e last] by simp_all
  show "currentProject (run s (traversal es)) = Some p"
    unfolding step using round_fields(2) [OF susp e] M by simp
  show "now (run s (traversal es)) = now s + sum_list (holds p es)"
    unfolding step by (rule nw)
  show "shown (run s (traversal es))
        = map (\<lambda>k. (now s + sum_list (take k (holds p es)), k)) [0..<length (scenes p)]"
    unfolding step using round_fields(4) [OF susp e last] M n by simp
qed


lemma speechEnds_index: "currentSceneIndex (speechEnds k e s) = currentSceneIndex s"
  by (simp add: speechEnds_def Let_def split: option.split task.split)

lemma undisturbed_order:
  assumes "currentProject s = Some p" "scenes p \<noteq> []" "\<not> isPlaying s" "suspended s = []"
    "shown s = []" "length es = length (scenes p)" "\<forall>e\<in>set es. 0 \<le> e"
  shows "map snd (shown (run s (traversal es))) = [0..<length (scenes p)]
    \<and> (\<forall>j<length (scenes p).
          isPlaying (run s (traversal (take j es)))
        \<and> currentSceneIndex (run s (traversal (take j es))) = j
        \<and> length (suspended (run s (traversal (take j es)))) = 1
        \<and> currentSceneIndex (run s (traversal (take j es) @ [SpeechEnds 0 (es ! j)])) = j)
    \<and> \<not> isPlaying (run s (traversal es))
    \<and> currentSceneIndex (run s (traversal es)) = 0
    \<and> suspended (run s (traversal es)) = []"
proof -
  note E = traversal_end [OF assms]
  have order: "map snd (shown (run s (traversal es))) = [0..<length (scenes p)]"
    unfolding E(6) by (rule nth_equalityI) simp_all
  have mid: "isPlaying (run s (traversal (take j es)))
        \<and> currentSceneIndex (run s (traversal (take j es))) = j
        \<and> length (suspended (run s (traversal (take j es)))) = 1
        \<and> currentSceneIndex (run s (traversal (take j es) @ [SpeechEnds 0 (es ! j)])) = j"
    if "j < length (scenes p)" for j
  proof -
    note M = traversal_mid [OF assms that]
    have "run s (traversal (take j es) @ [SpeechEnds 0 (es ! j)])
        = speechEnds 0 (es ! j) (run s (traversal (take j es)))"
      by (simp add: run_def)
    then show ?thesis using M by (simp add: speechEnds_index)
  qed
  from order mid E(1,2,4) show ?thesis by blast
qed




text \<open>
  C4. Three scenes. The preview is stopped while the second scene waits for its timer and
  started again at once. The stopped traversal goes on beside the new one: after scene 0
  of the new traversal the index becomes 2 and then 1, and two calls of \<^verbatim>\<open>playScene\<close>
  are suspended at once. The stopped traversal then comes to its end and clears the
  playing flag and the index while the new one has shown two of its three scenes, and the
  new one makes its third scene current with the flag cleared.
\<close>

theorem restart_interleaves_traversals:
  "shown (run (initial demoProject) restarted)
     = [(0, 0), (6000, 1), (8000, 0), (13000, 2), (14000, 1)]
   \<and> isPlaying (run (initial demoProject) restarted)
   \<and> length (suspended (run (initial demoProject) restarted)) = 2
   \<and> \<not> isPlaying (run (initial demoProject) restarted_on)
   \<and> currentSceneIndex (run (initial demoProject) restarted_on) = 0
   \<and> length (suspended (run (initial demoProject) restarted_on)) = 1
   \<and> \<not> isPlaying (run (initial demoProject) (restarted_on @ [TimerFires 0]))
   \<and> currentSceneIndex (run (initial demoProject) (restarted_on @ [TimerFires 0])) = 2"
  by (simp add: restarted_on_def restarted_def run_def handlePlayPreview_def playScene_def
      speechEnds_def timerFires_def lookup_def previewIntervalRef_def scene_of_def
      setTimeout_delay_5000 Let_def)

text \<open>
  C2. Three scenes; the first two have been narrated and the second waits for its timer
  when the button is clicked again. The click clears the playing flag and empties the
  synthesiser, but the index stays 1, and when the timer fires the third scene becomes
  current and its narration begins.
\<close>

theorem cancel_leaves_traversal_running:
  "\<not> isPlaying (run (initial demoProject) [Click, SpeechEnds 0 1000, TimerFires 0, SpeechEnds 0 2000, Click])
   \<and> utterance (run (initial demoProject) [Click, SpeechEnds 0 1000, TimerFires 0, SpeechEnds 0 2000, Click]) = None
   \<and> currentSceneIndex (run (initial demoProject) [Click, SpeechEnds 0 1000, TimerFires 0, SpeechEnds 0 2000, Click]) = 1
   \<and> currentSceneIndex (run (initial demoProject) [Click, SpeechEnds 0 1000, TimerFires 0, SpeechEnds 0 2000, Click, TimerFires 0]) = 2
   \<and> utterance (run (initial demoProject) [Click, SpeechEnds 0 1000, TimerFires 0, SpeechEnds 0 2000, Click, TimerFires 0]) = Some (''Three'', female)
   \<and> shown (run (initial demoProject) [Click, SpeechEnds 0 1000, TimerFires 0, SpeechEnds 0 2000, Click, TimerFires 0]) = [(0, 0), (6000, 1), (13000, 2)]"
  by (simp add: run_def handlePlayPreview_def playScene_def speechEnds_def timerFires_def lookup_def
      previewIntervalRef_def scene_of_def setTimeout_delay_5000 Let_def)

text \<open>
  C7. Amended. The handler of the preview button is a toggle, not a cancel that could be
  repeated. While a preview plays it clears the playing flag. While none plays and the
  project has scenes it starts one: the flag is set and the index is 0; so of two calls
  in a row during a preview the second starts the preview again. It changes nothing only
  when the project has no scenes. The project is the same afterwards in every case, and
  where the window has a speech synthesiser no call throws.
\<close>

theorem preview_toggle:
  "currentProject s = Some p \<Longrightarrow>
     currentProject (handlePlayPreview s) = Some p
   \<and> handlePlayPreview_throws True s = None
   \<and> (scenes p = [] \<longrightarrow>
        handlePlayPreview s = s \<and> handlePlayPreview_throws hasSpeechSynthesis s = None)
   \<and> (scenes p \<noteq> [] \<and> isPlaying s \<longrightarrow>
        \<not> isPlaying (handlePlayPreview s)
      \<and> isPlaying (handlePlayPreview (handlePlayPreview s))
      \<and> currentSceneIndex (handlePlayPreview (handlePlayPreview s)) = 0)
   \<and> (scenes p \<noteq> [] \<and> \<not> isPlaying s \<longrightarrow>
        isPlaying (handlePlayPreview s)
      \<and> currentSceneIndex (handlePlayPreview s) = 0
      \<and> handlePlayPreview_throws hasSpeechSynthesis s = None)"
  by (simp add: handlePlayPreview_def handlePlayPreview_throws_def playScene_def
      previewIntervalRef_def Let_def)

theorem preview_toggle_witness:
  "handlePlayPreview (initial (demoProject\<lparr>scenes := []\<rparr>)) = initial (demoProject\<lparr>scenes := []\<rparr>)
   \<and> isPlaying (handlePlayPreview (initial demoProject))
   \<and> currentSceneIndex (handlePlayPreview (initial demoProject)) = 0
   \<and> \<not> isPlaying (handlePlayPreview ((initial demoProject)\<lparr>isPlaying := True, currentSceneIndex := 2\<rparr>))
   \<and> isPlaying (handlePlayPreview (handlePlayPreview
         ((initial demoProject)\<lparr>isPlaying := True, currentSceneIndex := 2\<rparr>)))
   \<and> handlePlayPreview_throws True
         ((initial demoProject)\<lparr>isPlaying := True, currentSceneIndex := 2\<rparr>) = None"
  using preview_toggle [of "initial (demoProject\<lparr>scenes := []\<rparr>)" "demoProject\<lparr>scenes := []\<rparr>"]
    preview_toggle [of "initial demoProject" demoProject]
    preview_toggle [of "(initial demoProject)\<lparr>isPlaying := True, currentSceneIndex := 2\<rparr>" demoProject]
  by simp

text \<open>
  C7 as stated fails: of two calls in a row during a preview, the first stops the preview
  and the second starts it again.
\<close>

theorem cancel_twice_restarts:
  "isPlaying (run (initial demoProject) [Click])
   \<and> \<not> isPlaying (run (initial demoProject) [Click, Click])
   \<and> isPlaying (run (initial demoProject) [Click, Click, Click])"
  by (simp add: run_def handlePlayPreview_def playScene_def previewIntervalRef_def Let_def)

end
